theory Spec2Isabelle
  imports Main
begin

section \<open>Values, property objects and user-supplied functions\<close>

text \<open>
  JavaScript values as far as \<^verbatim>\<open>connect.js\<close> looks at them. The component only
  ever compares values with \<^verbatim>\<open>===\<close>; an object or function value is therefore its
  reference \<open>VRef r\<close>, and HOL equality on \<open>val\<close> is \<^verbatim>\<open>===\<close>.
\<close>

datatype val = VUndefined | VNull | VBool bool | VNum int | VStr string | VRef nat

text \<open>A plain object (own props, state props, dispatch props, merged props).\<close>

type_synonym props = "string \<rightharpoonup> val"

text \<open>
  A thrown value. \<^verbatim>\<open>throw\<close> takes any value: an \<^verbatim>\<open>Error\<close> object is a reference, and
  \<^verbatim>\<open>null\<close>, \<^verbatim>\<open>0\<close> or \<^verbatim>\<open>''\<close> can be thrown as well.
\<close>

type_synonym err = val

text \<open>What \<^verbatim>\<open>if (v)\<close> tests. Numbers are integers here, so there is no \<^verbatim>\<open>NaN\<close>.\<close>

fun truthy :: "val \<Rightarrow> bool" where
  "truthy VUndefined = False"
| "truthy VNull = False"
| "truthy (VBool b) = b"
| "truthy (VNum n) = (n \<noteq> 0)"
| "truthy (VStr s) = (s \<noteq> [])"
| "truthy (VRef r) = True"

text \<open>
  A function value that maps \<open>(state, ownProps)\<close> or \<open>(dispatch, ownProps)\<close> to a
  plain object, or throws. \<open>fn_length\<close> is the \<^verbatim>\<open>length\<close> property (the declared
  parameter count); the second argument is \<open>None\<close> when the caller passes one
  argument only.
\<close>

datatype fn = Fn (fn_length: nat) (fn_apply: "val \<Rightarrow> props option \<Rightarrow> err + props")

text \<open>
  What is passed as \<^verbatim>\<open>mapStateToProps\<close> or \<^verbatim>\<open>mapDispatchToProps\<close>: a function
  whose call returns a plain object (\<open>Direct\<close>), or one whose call returns another
  function (\<open>Factory\<close>, the case \<^verbatim>\<open>typeof mapped === 'function'\<close>), which in turn
  returns plain objects. Results of other shapes, for which the source only warns, are
  not modelled.
\<close>

datatype mapper = Direct fn | Factory nat "val \<Rightarrow> props option \<Rightarrow> err + fn"

text \<open>The second argument of \<^verbatim>\<open>connect\<close>: a function, a falsy value, or an object of action creators.\<close>

datatype dispatch_arg = DispatchFunction mapper | DispatchOmitted | DispatchObject props

text \<open>The element returned by \<^verbatim>\<open>createElement\<close>: a fresh reference and the props it was given.\<close>

datatype element = Element (node_ref: nat) (element_props: "props option")

text \<open>
  Modelled from the spec: \<^verbatim>\<open>utils/shallowEqual\<close> is imported by \<^verbatim>\<open>connect.js\<close> and its
  file is not among the sources. The spec: two mappings are equal if they have the same
  keys and each value is reference-equal. On \<open>props\<close> that is equality of the two maps
  (lemma \<open>shallowEqual_iff\<close> below).
\<close>

definition shallowEqual :: "props \<Rightarrow> props \<Rightarrow> bool" where
  "shallowEqual objA objB = (objA = objB)"

subsection \<open>Module-level defaults\<close>

definition defaultMapStateToProps :: mapper where
  "defaultMapStateToProps = Direct (Fn 1 (\<lambda>state ownProps. Inr Map.empty))"

definition defaultMapDispatchToProps :: mapper where
  "defaultMapDispatchToProps = Direct (Fn 1 (\<lambda>dispatch ownProps. Inr [''dispatch'' \<mapsto> dispatch]))"

text \<open>
  Object spread into a literal: the own properties of the source overwrite those of the
  target; spreading \<^verbatim>\<open>null\<close> (here \<open>None\<close>) adds nothing.
\<close>

definition spread :: "props \<Rightarrow> props option \<Rightarrow> props" where
  "spread target source = (case source of None \<Rightarrow> target | Some obj \<Rightarrow> target ++ obj)"

text \<open>\<^verbatim>\<open>{...parentProps, ...stateProps, ...dispatchProps}\<close>\<close>

definition defaultMergeProps :: "props option \<Rightarrow> props option \<Rightarrow> props \<Rightarrow> props" where
  "defaultMergeProps stateProps dispatchProps parentProps =
     spread (spread (spread Map.empty (Some parentProps)) stateProps) dispatchProps"

text \<open>\<^verbatim>\<open>WrappedComponent.displayName || WrappedComponent.name || 'Component'\<close>\<close>

record component =
  displayName :: "string option"
  name :: "string option"

definition truthy_string :: "string option \<Rightarrow> bool" where
  "truthy_string s = (case s of None \<Rightarrow> False | Some t \<Rightarrow> t \<noteq> [])"

definition getDisplayName :: "component \<Rightarrow> string" where
  "getDisplayName WrappedComponent =
     (if truthy_string (displayName WrappedComponent) then the (displayName WrappedComponent)
      else if truthy_string (name WrappedComponent) then the (name WrappedComponent)
      else ''Component'')"

subsection \<open>The arguments of connect and what it derives from them\<close>

record config =
  mapStateToProps :: "mapper option"
  mapDispatchToProps :: dispatch_arg
  mergeProps :: "(props option \<Rightarrow> props option \<Rightarrow> props \<Rightarrow> err + props) option"
  options_pure :: "bool option"
  options_withRef :: "bool option"
  wrapActionCreators :: "props \<Rightarrow> mapper"
  version :: nat
  WrappedComponent :: component

text \<open>
  \<open>wrapActionCreators\<close> stands for the imported \<^verbatim>\<open>utils/wrapActionCreators\<close>, whose file is
  not among the sources: it is a parameter of the configuration.
\<close>

definition shouldSubscribe :: "config \<Rightarrow> bool" where
  "shouldSubscribe cfg = (mapStateToProps cfg \<noteq> None)"

definition mapState :: "config \<Rightarrow> mapper" where
  "mapState cfg = (case mapStateToProps cfg of Some m \<Rightarrow> m | None \<Rightarrow> defaultMapStateToProps)"

definition mapDispatch :: "config \<Rightarrow> mapper" where
  "mapDispatch cfg =
     (case mapDispatchToProps cfg of
        DispatchFunction m \<Rightarrow> m
      | DispatchOmitted \<Rightarrow> defaultMapDispatchToProps
      | DispatchObject actionCreators \<Rightarrow> wrapActionCreators cfg actionCreators)"

definition finalMergeProps :: "config \<Rightarrow> props option \<Rightarrow> props option \<Rightarrow> props \<Rightarrow> err + props" where
  "finalMergeProps cfg =
     (case mergeProps cfg of
        Some m \<Rightarrow> m
      | None \<Rightarrow> (\<lambda>stateProps dispatchProps parentProps.
                   Inr (defaultMergeProps stateProps dispatchProps parentProps)))"

definition pure :: "config \<Rightarrow> bool" where
  "pure cfg = (case options_pure cfg of Some b \<Rightarrow> b | None \<Rightarrow> True)"

definition withRef :: "config \<Rightarrow> bool" where
  "withRef cfg = (case options_withRef cfg of Some b \<Rightarrow> b | None \<Rightarrow> False)"

text \<open>
  \<^verbatim>\<open>pure && finalMergeProps !== defaultMergeProps\<close>. The default merge function is private
  to the module, so \<^verbatim>\<open>finalMergeProps\<close> is that very function exactly when no
  \<^verbatim>\<open>mergeProps\<close> argument was given.
\<close>

definition checkMergedEquals :: "config \<Rightarrow> bool" where
  "checkMergedEquals cfg = (pure cfg \<and> mergeProps cfg \<noteq> None)"

definition connectDisplayName :: "config \<Rightarrow> string" where
  "connectDisplayName cfg = ''Connect('' @ getDisplayName (WrappedComponent cfg) @ '')''"

section \<open>The store and a live Connect instance\<close>

text \<open>
  The store is external: \<open>getState\<close> is what \<^verbatim>\<open>store.getState()\<close> returns now,
  \<open>dispatch\<close> the value of \<^verbatim>\<open>store.dispatch\<close>, \<open>listeners\<close> the handles of the
  listeners registered at present and \<open>subscribe_calls\<close> the number of calls of
  \<^verbatim>\<open>store.subscribe\<close> so far (also the next handle).
\<close>

record store =
  getState :: val
  dispatch :: val
  listeners :: "nat list"
  subscribe_calls :: nat

text \<open>
  The instance fields of \<^verbatim>\<open>Connect\<close>, on top of the store it holds. \<open>None\<close> is
  \<^verbatim>\<open>null\<close> or \<^verbatim>\<open>undefined\<close>. \<open>unsubscribe\<close> holds the handle whose removal the function
  returned by \<^verbatim>\<open>store.subscribe\<close> performs. \<open>storeState\<close> is
  \<^verbatim>\<open>this.state.storeState\<close>, and \<open>pendingState\<close> the \<^verbatim>\<open>storeState\<close> that a
  \<^verbatim>\<open>setState\<close> has handed to the rendering engine and the engine has not assigned yet.
  \<open>statePropsPrecalculationError\<close> holds \<^verbatim>\<open>null\<close> or the thrown value. The last five
  fields are not fields of the source: they count the calls of \<^verbatim>\<open>createElement\<close> (the count is the next fresh
  node reference), the calls of \<^verbatim>\<open>setState\<close>, and the calls that the three
  \<^verbatim>\<open>update...IfNeeded\<close> methods make of their compute function.
\<close>

record world = store +
  this_version :: nat
  props :: props
  storeState :: val
  stateProps :: "props option"
  dispatchProps :: "props option"
  mergedProps :: "props option"
  haveOwnPropsChanged :: bool
  hasStoreStateChanged :: bool
  haveStatePropsBeenPrecalculated :: bool
  statePropsPrecalculationError :: val
  renderedElement :: "element option"
  finalMapStateToProps :: "fn option"
  finalMapDispatchToProps :: "fn option"
  doStatePropsDependOnOwnProps :: "bool option"
  doDispatchPropsDependOnOwnProps :: "bool option"
  unsubscribe :: "nat option"
  pendingState :: "val option"
  createElement_calls :: nat
  setState_calls :: nat
  computeStateProps_calls :: nat
  computeDispatchProps_calls :: nat
  computeMergedProps_calls :: nat


section \<open>The methods of Connect\<close>

text \<open>
  A method takes the instance (with its store) and returns it updated; a method that can
  throw returns \<open>Inl\<close> of the exception beside the instance as the throw left it. The
  development-only shape warnings (\<^verbatim>\<open>checkStateShape\<close>) change nothing and are left out.
\<close>

definition computeMergedProps ::
  "config \<Rightarrow> props option \<Rightarrow> props option \<Rightarrow> props \<Rightarrow> world \<Rightarrow> (err + props) \<times> world" where
  "computeMergedProps cfg stateProps' dispatchProps' parentProps w =
     (finalMergeProps cfg stateProps' dispatchProps' parentProps,
      w\<lparr>computeMergedProps_calls := computeMergedProps_calls w + 1\<rparr>)"

definition shouldComponentUpdate :: "config \<Rightarrow> world \<Rightarrow> bool" where
  "shouldComponentUpdate cfg w = (\<not> pure cfg \<or> haveOwnPropsChanged w \<or> hasStoreStateChanged w)"

definition clearCache :: "world \<Rightarrow> world" where
  "clearCache w = w\<lparr>
     dispatchProps := None,
     stateProps := None,
     mergedProps := None,
     haveOwnPropsChanged := True,
     hasStoreStateChanged := True,
     haveStatePropsBeenPrecalculated := False,
     statePropsPrecalculationError := VNull,
     renderedElement := None,
     finalMapDispatchToProps := None,
     finalMapStateToProps := None\<rparr>"

text \<open>The part of \<^verbatim>\<open>computeStateProps\<close> after its guard: the call of the finalized mapper.\<close>

definition callFinalMapStateToProps :: "fn \<Rightarrow> world \<Rightarrow> err + props" where
  "callFinalMapStateToProps f w =
     (if doStatePropsDependOnOwnProps w = Some True
      then fn_apply f (getState w) (Some (props w))
      else fn_apply f (getState w) None)"

definition configureFinalMapState :: "config \<Rightarrow> world \<Rightarrow> (err + props) \<times> world" where
  "configureFinalMapState cfg w =
     (case mapState cfg of
        Direct m \<Rightarrow>
          (case fn_apply m (getState w) (Some (props w)) of
             Inl e \<Rightarrow> (Inl e, w)
           | Inr mappedState \<Rightarrow>
               (Inr mappedState,
                w\<lparr>finalMapStateToProps := Some m,
                  doStatePropsDependOnOwnProps := Some (fn_length m \<noteq> 1)\<rparr>))
      | Factory n m \<Rightarrow>
          (case m (getState w) (Some (props w)) of
             Inl e \<Rightarrow> (Inl e, w)
           | Inr mappedState \<Rightarrow>
               (let w' = w\<lparr>finalMapStateToProps := Some mappedState,
                           doStatePropsDependOnOwnProps := Some (fn_length mappedState \<noteq> 1)\<rparr>
                in (callFinalMapStateToProps mappedState w', w'))))"

definition computeStateProps :: "config \<Rightarrow> world \<Rightarrow> (err + props) \<times> world" where
  "computeStateProps cfg w0 =
     (let w = w0\<lparr>computeStateProps_calls := computeStateProps_calls w0 + 1\<rparr>
      in case finalMapStateToProps w of
           None \<Rightarrow> configureFinalMapState cfg w
         | Some f \<Rightarrow> (callFinalMapStateToProps f w, w))"

definition callFinalMapDispatchToProps :: "fn \<Rightarrow> world \<Rightarrow> err + props" where
  "callFinalMapDispatchToProps f w =
     (if doDispatchPropsDependOnOwnProps w = Some True
      then fn_apply f (dispatch w) (Some (props w))
      else fn_apply f (dispatch w) None)"

definition configureFinalMapDispatch :: "config \<Rightarrow> world \<Rightarrow> (err + props) \<times> world" where
  "configureFinalMapDispatch cfg w =
     (case mapDispatch cfg of
        Direct m \<Rightarrow>
          (case fn_apply m (dispatch w) (Some (props w)) of
             Inl e \<Rightarrow> (Inl e, w)
           | Inr mappedDispatch \<Rightarrow>
               (Inr mappedDispatch,
                w\<lparr>finalMapDispatchToProps := Some m,
                  doDispatchPropsDependOnOwnProps := Some (fn_length m \<noteq> 1)\<rparr>))
      | Factory n m \<Rightarrow>
          (case m (dispatch w) (Some (props w)) of
             Inl e \<Rightarrow> (Inl e, w)
           | Inr mappedDispatch \<Rightarrow>
               (let w' = w\<lparr>finalMapDispatchToProps := Some mappedDispatch,
                           doDispatchPropsDependOnOwnProps := Some (fn_length mappedDispatch \<noteq> 1)\<rparr>
                in (callFinalMapDispatchToProps mappedDispatch w', w'))))"

definition computeDispatchProps :: "config \<Rightarrow> world \<Rightarrow> (err + props) \<times> world" where
  "computeDispatchProps cfg w0 =
     (let w = w0\<lparr>computeDispatchProps_calls := computeDispatchProps_calls w0 + 1\<rparr>
      in case finalMapDispatchToProps w of
           None \<Rightarrow> configureFinalMapDispatch cfg w
         | Some f \<Rightarrow> (callFinalMapDispatchToProps f w, w))"

text \<open>\<^verbatim>\<open>this.stateProps && shallowEqual(nextStateProps, this.stateProps)\<close>\<close>

definition truthy_and_shallowEqual :: "props option \<Rightarrow> props \<Rightarrow> bool" where
  "truthy_and_shallowEqual cached next =
     (case cached of None \<Rightarrow> False | Some obj \<Rightarrow> shallowEqual next obj)"

definition updateStatePropsIfNeeded :: "config \<Rightarrow> world \<Rightarrow> (err + bool) \<times> world" where
  "updateStatePropsIfNeeded cfg w =
     (case computeStateProps cfg w of
        (Inl e, w') \<Rightarrow> (Inl e, w')
      | (Inr nextStateProps, w') \<Rightarrow>
          if truthy_and_shallowEqual (stateProps w') nextStateProps then (Inr False, w')
          else (Inr True, w'\<lparr>stateProps := Some nextStateProps\<rparr>))"

definition updateDispatchPropsIfNeeded :: "config \<Rightarrow> world \<Rightarrow> (err + bool) \<times> world" where
  "updateDispatchPropsIfNeeded cfg w =
     (case computeDispatchProps cfg w of
        (Inl e, w') \<Rightarrow> (Inl e, w')
      | (Inr nextDispatchProps, w') \<Rightarrow>
          if truthy_and_shallowEqual (dispatchProps w') nextDispatchProps then (Inr False, w')
          else (Inr True, w'\<lparr>dispatchProps := Some nextDispatchProps\<rparr>))"

definition updateMergedPropsIfNeeded :: "config \<Rightarrow> world \<Rightarrow> (err + bool) \<times> world" where
  "updateMergedPropsIfNeeded cfg w =
     (case computeMergedProps cfg (stateProps w) (dispatchProps w) (props w) w of
        (Inl e, w') \<Rightarrow> (Inl e, w')
      | (Inr nextMergedProps, w') \<Rightarrow>
          if mergedProps w' \<noteq> None \<and> checkMergedEquals cfg
             \<and> shallowEqual nextMergedProps (the (mergedProps w'))
          then (Inr False, w')
          else (Inr True, w'\<lparr>mergedProps := Some nextMergedProps\<rparr>))"


subsection \<open>Subscription and the store's notification\<close>

text \<open>
  \<^verbatim>\<open>tryCatch\<close> returns what the function returns, or the module's \<^verbatim>\<open>errorObject\<close> with
  the exception stored in its \<^verbatim>\<open>value\<close>; the caller reads that \<^verbatim>\<open>value\<close> at once.
\<close>

datatype 'a tried = Returned 'a | ErrorObject err

definition tryCatch :: "(world \<Rightarrow> (err + 'a) \<times> world) \<Rightarrow> world \<Rightarrow> 'a tried \<times> world" where
  "tryCatch f ctx =
     (case f ctx of
        (Inr r, ctx') \<Rightarrow> (Returned r, ctx')
      | (Inl e, ctx') \<Rightarrow> (ErrorObject e, ctx'))"

text \<open>
  \<^verbatim>\<open>this.setState({storeState})\<close> hands the new state to the rendering engine and
  requests an update. The engine assigns \<^verbatim>\<open>this.state\<close> when it performs the update:
  before \<^verbatim>\<open>setState\<close> returns when the call is made outside a batch, at the end of
  the batch otherwise. Until then \<^verbatim>\<open>this.state.storeState\<close> is the old snapshot.
\<close>

definition setState :: "val \<Rightarrow> world \<Rightarrow> world" where
  "setState s w = w\<lparr>pendingState := Some s, setState_calls := setState_calls w + 1\<rparr>"

definition handleChange :: "config \<Rightarrow> world \<Rightarrow> world" where
  "handleChange cfg w =
     (if unsubscribe w = None then w
      else
        let storeState' = getState w;
            prevStoreState = storeState w
        in if pure cfg \<and> prevStoreState = storeState' then w
           else if pure cfg \<and> doStatePropsDependOnOwnProps w \<noteq> Some True then
             (case tryCatch (updateStatePropsIfNeeded cfg) w of
                (Returned False, w') \<Rightarrow> w'
              | (Returned True, w') \<Rightarrow>
                  setState storeState'
                    (w'\<lparr>haveStatePropsBeenPrecalculated := True, hasStoreStateChanged := True\<rparr>)
              | (ErrorObject e, w') \<Rightarrow>
                  setState storeState'
                    (w'\<lparr>statePropsPrecalculationError := e,
                       haveStatePropsBeenPrecalculated := True,
                       hasStoreStateChanged := True\<rparr>))
           else setState storeState' (w\<lparr>hasStoreStateChanged := True\<rparr>))"

definition isSubscribed :: "world \<Rightarrow> bool" where
  "isSubscribed w = (unsubscribe w \<noteq> None)"

definition trySubscribe :: "config \<Rightarrow> world \<Rightarrow> world" where
  "trySubscribe cfg w =
     (if shouldSubscribe cfg \<and> unsubscribe w = None
      then handleChange cfg
             (w\<lparr>listeners := listeners w @ [subscribe_calls w],
                subscribe_calls := subscribe_calls w + 1,
                unsubscribe := Some (subscribe_calls w)\<rparr>)
      else w)"

definition tryUnsubscribe :: "world \<Rightarrow> world" where
  "tryUnsubscribe w =
     (case unsubscribe w of
        None \<Rightarrow> w
      | Some h \<Rightarrow> w\<lparr>listeners := removeAll h (listeners w), unsubscribe := None\<rparr>)"

definition componentDidMount :: "config \<Rightarrow> world \<Rightarrow> world" where
  "componentDidMount cfg w = trySubscribe cfg w"

definition componentWillReceiveProps :: "config \<Rightarrow> props \<Rightarrow> world \<Rightarrow> world" where
  "componentWillReceiveProps cfg nextProps w =
     (if \<not> pure cfg \<or> \<not> shallowEqual nextProps (props w)
      then w\<lparr>haveOwnPropsChanged := True\<rparr>
      else w)"

definition componentWillUnmount :: "world \<Rightarrow> world" where
  "componentWillUnmount w = clearCache (tryUnsubscribe w)"

definition componentWillUpdate :: "config \<Rightarrow> world \<Rightarrow> world" where
  "componentWillUpdate cfg w =
     (if this_version w = version cfg then w
      else clearCache (trySubscribe cfg (w\<lparr>this_version := version cfg\<rparr>)))"

text \<open>
  The constructor: \<^verbatim>\<open>props.store || context.store\<close>, the \<^verbatim>\<open>invariant\<close> on it, the first
  snapshot and \<^verbatim>\<open>clearCache\<close>. \<open>initial_fields\<close> is the instance as the first two
  assignments leave it: fields never assigned are \<^verbatim>\<open>undefined\<close>, counters are zero.
  \<^verbatim>\<open>invariant\<close> belongs to another package: a violation is recorded with the format
  string the constructor passes, which \<^verbatim>\<open>invariant\<close> turns into the message of the
  \<^verbatim>\<open>Error\<close> it throws (expanding each \<^verbatim>\<open>%s\<close> in it).
\<close>

datatype invariant_violation = Invariant string

definition missingStoreFormat :: "config \<Rightarrow> string" where
  "missingStoreFormat cfg =
     ''Could not find \"store\" in either the context or props of \"'' @ connectDisplayName cfg
     @ ''\". Either wrap the root component in a <Provider>, or explicitly pass \"store\" as a prop to \"''
     @ connectDisplayName cfg @ ''\".''"

definition initial_fields :: "config \<Rightarrow> props \<Rightarrow> store \<Rightarrow> world" where
  "initial_fields cfg ownProps s =
     \<lparr>getState = getState s, dispatch = dispatch s, listeners = listeners s,
      subscribe_calls = subscribe_calls s,
      this_version = version cfg, props = ownProps, storeState = getState s,
      stateProps = None, dispatchProps = None, mergedProps = None,
      haveOwnPropsChanged = False, hasStoreStateChanged = False,
      haveStatePropsBeenPrecalculated = False, statePropsPrecalculationError = VUndefined,
      renderedElement = None, finalMapStateToProps = None, finalMapDispatchToProps = None,
      doStatePropsDependOnOwnProps = None, doDispatchPropsDependOnOwnProps = None,
      unsubscribe = None, pendingState = None, createElement_calls = 0, setState_calls = 0,
      computeStateProps_calls = 0, computeDispatchProps_calls = 0,
      computeMergedProps_calls = 0\<rparr>"

definition constructor :: "config \<Rightarrow> props \<Rightarrow> store option \<Rightarrow> store option \<Rightarrow> invariant_violation + world" where
  "constructor cfg ownProps propsStore contextStore =
     (case (case propsStore of Some s \<Rightarrow> Some s | None \<Rightarrow> contextStore) of
        None \<Rightarrow> Inl (Invariant (missingStoreFormat cfg))
      | Some s \<Rightarrow> Inr (clearCache (initial_fields cfg ownProps s)))"

subsection \<open>Render\<close>

text \<open>
  \<^verbatim>\<open>createElement(WrappedComponent, props)\<close> belongs to the rendering engine: it returns a
  node with a reference no earlier node has.
\<close>

definition createElement :: "props option \<Rightarrow> world \<Rightarrow> element \<times> world" where
  "createElement p w =
     (Element (createElement_calls w) p, w\<lparr>createElement_calls := createElement_calls w + 1\<rparr>)"

text \<open>
  \<^verbatim>\<open>render\<close> in the order of its statements. It first copies five fields of \<^verbatim>\<open>this\<close>
  into locals and resets four of them: below \<open>w0\<close> is the instance as \<^verbatim>\<open>render\<close> found
  it (the locals are read from it) and the later worlds are the instance as it is by then.
\<close>

definition render_reset :: "world \<Rightarrow> world" where
  "render_reset w0 = w0\<lparr>
     haveOwnPropsChanged := False,
     hasStoreStateChanged := False,
     haveStatePropsBeenPrecalculated := False,
     statePropsPrecalculationError := VNull\<rparr>"

definition shouldUpdateStateProps :: "config \<Rightarrow> world \<Rightarrow> bool" where
  "shouldUpdateStateProps cfg w0 =
     (if pure cfg \<and> renderedElement w0 \<noteq> None
      then hasStoreStateChanged w0
           \<or> (haveOwnPropsChanged w0 \<and> doStatePropsDependOnOwnProps w0 = Some True)
      else True)"

definition shouldUpdateDispatchProps :: "config \<Rightarrow> world \<Rightarrow> bool" where
  "shouldUpdateDispatchProps cfg w0 =
     (if pure cfg \<and> renderedElement w0 \<noteq> None
      then haveOwnPropsChanged w0 \<and> doDispatchPropsDependOnOwnProps w0 = Some True
      else True)"

text \<open>The value of \<^verbatim>\<open>haveStatePropsChanged\<close>.\<close>

definition render_stateProps :: "config \<Rightarrow> world \<Rightarrow> world \<Rightarrow> (err + bool) \<times> world" where
  "render_stateProps cfg w0 w1 =
     (if haveStatePropsBeenPrecalculated w0 then (Inr True, w1)
      else if shouldUpdateStateProps cfg w0 then updateStatePropsIfNeeded cfg w1
      else (Inr False, w1))"

text \<open>The value of \<^verbatim>\<open>haveDispatchPropsChanged\<close>.\<close>

definition render_dispatchProps :: "config \<Rightarrow> world \<Rightarrow> world \<Rightarrow> (err + bool) \<times> world" where
  "render_dispatchProps cfg w0 w2 =
     (if shouldUpdateDispatchProps cfg w0 then updateDispatchPropsIfNeeded cfg w2
      else (Inr False, w2))"

text \<open>The value of \<^verbatim>\<open>haveMergedPropsChanged\<close>.\<close>

definition render_mergedProps ::
  "world \<Rightarrow> bool \<Rightarrow> bool \<Rightarrow> config \<Rightarrow> world \<Rightarrow> (err + bool) \<times> world" where
  "render_mergedProps w0 haveStatePropsChanged haveDispatchPropsChanged cfg w3 =
     (if haveStatePropsChanged \<or> haveDispatchPropsChanged \<or> haveOwnPropsChanged w0
      then updateMergedPropsIfNeeded cfg w3
      else (Inr False, w3))"

text \<open>\<^verbatim>\<open>render\<close> up to the three flags, which are returned.\<close>

definition render_updates :: "config \<Rightarrow> world \<Rightarrow> (err + bool \<times> bool \<times> bool) \<times> world" where
  "render_updates cfg w0 =
     (if truthy (statePropsPrecalculationError w0)
      then (Inl (statePropsPrecalculationError w0), render_reset w0)
      else
        (case render_stateProps cfg w0 (render_reset w0) of
           (Inl e, w2) \<Rightarrow> (Inl e, w2)
         | (Inr haveStatePropsChanged, w2) \<Rightarrow>
             (case render_dispatchProps cfg w0 w2 of
                (Inl e, w3) \<Rightarrow> (Inl e, w3)
              | (Inr haveDispatchPropsChanged, w3) \<Rightarrow>
                  (case render_mergedProps w0 haveStatePropsChanged haveDispatchPropsChanged cfg w3 of
                     (Inl e, w4) \<Rightarrow> (Inl e, w4)
                   | (Inr haveMergedPropsChanged, w4) \<Rightarrow>
                       (Inr (haveStatePropsChanged, haveDispatchPropsChanged,
                             haveMergedPropsChanged), w4)))))"

definition render :: "config \<Rightarrow> world \<Rightarrow> (err + element) \<times> world" where
  "render cfg w0 =
     (case render_updates cfg w0 of
        (Inl e, w4) \<Rightarrow> (Inl e, w4)
      | (Inr (haveStatePropsChanged, haveDispatchPropsChanged, haveMergedPropsChanged), w4) \<Rightarrow>
          if \<not> haveMergedPropsChanged \<and> renderedElement w0 \<noteq> None
          then (Inr (the (renderedElement w0)), w4)
          else
            let (el, w5) =
                  (if withRef cfg
                   then createElement
                          (Some ((spread Map.empty (mergedProps w4))(''ref'' \<mapsto> VStr ''wrappedInstance''))) w4
                   else createElement (mergedProps w4) w4)
            in (Inr el, w5\<lparr>renderedElement := Some el\<rparr>))"

section \<open>The rendering engine and the store driving one instance\<close>

text \<open>
  The rendering engine and the store are not part of the source: they call the methods
  above. What happens to a constructed instance:
  \<^item> \<open>Mount\<close>: the engine mounts it (the first render, then \<^verbatim>\<open>componentDidMount\<close>);
  \<^item> \<open>StoreChange s\<close>: the store's state is replaced, and the store has not called this
    instance's listener yet (it calls listeners in the order of their subscription,
    and an earlier one may make the parent pass props before this one runs);
  \<^item> \<open>Notification\<close>: the store calls this instance's listener, outside a batch;
  \<^item> \<open>StoreUpdate s\<close>: the state is replaced and the listener called at once;
  \<^item> \<open>Batch ss\<close>: inside one batch of the engine the store's state is replaced by each
    snapshot of \<open>ss\<close> in turn and the listener called after each; the engine performs
    the requested update when the batch ends;
  \<^item> \<open>PropsUpdate p\<close>: the parent passes props;
  \<^item> \<open>Unmount\<close>: the engine unmounts the instance.
\<close>

datatype event =
  Mount | StoreChange val | Notification | StoreUpdate val | Batch "val list"
  | PropsUpdate props | Unmount

text \<open>The engine assigns the state that \<^verbatim>\<open>setState\<close> handed to it.\<close>

definition apply_pendingState :: "world \<Rightarrow> world" where
  "apply_pendingState w =
     (case pendingState w of
        None \<Rightarrow> w
      | Some s \<Rightarrow> w\<lparr>storeState := s, pendingState := None\<rparr>)"

text \<open>
  An update of the rendering engine: \<^verbatim>\<open>shouldComponentUpdate\<close>, then
  \<^verbatim>\<open>componentWillUpdate\<close>, the assignment of the pending state and \<^verbatim>\<open>render\<close>; without
  an update the engine assigns the pending state and keeps the node it has.
\<close>

definition engine_update :: "config \<Rightarrow> world \<Rightarrow> (err + unit) \<times> world" where
  "engine_update cfg w =
     (if shouldComponentUpdate cfg w
      then (case render cfg (apply_pendingState (componentWillUpdate cfg w)) of
              (Inl e, w') \<Rightarrow> (Inl e, w')
            | (Inr el, w') \<Rightarrow> (Inr (), w'))
      else (Inr (), apply_pendingState w))"

text \<open>The store calls the listeners it holds; outside a batch an update follows each \<^verbatim>\<open>setState\<close>.\<close>

definition notify :: "config \<Rightarrow> world \<Rightarrow> (err + unit) \<times> world" where
  "notify cfg w =
     (case unsubscribe w of
        None \<Rightarrow> (Inr (), w)
      | Some h \<Rightarrow>
          if h \<in> set (listeners w)
          then (let w' = handleChange cfg w
                in if setState_calls w' \<noteq> setState_calls w then engine_update cfg w'
                   else (Inr (), w'))
          else (Inr (), w))"

text \<open>Inside a batch the store calls the listener and the engine waits.\<close>

definition call_listener :: "config \<Rightarrow> world \<Rightarrow> world" where
  "call_listener cfg w =
     (case unsubscribe w of
        None \<Rightarrow> w
      | Some h \<Rightarrow> if h \<in> set (listeners w) then handleChange cfg w else w)"

fun deliver :: "config \<Rightarrow> val list \<Rightarrow> world \<Rightarrow> world" where
  "deliver cfg [] w = w"
| "deliver cfg (s # ss) w = deliver cfg ss (call_listener cfg (w\<lparr>getState := s\<rparr>))"

definition step :: "config \<Rightarrow> event \<Rightarrow> world \<Rightarrow> (err + unit) \<times> world" where
  "step cfg ev w =
     (case ev of
        Mount \<Rightarrow>
          (case render cfg w of
             (Inl e, w1) \<Rightarrow> (Inl e, w1)
           | (Inr el, w1) \<Rightarrow>
               (let w' = componentDidMount cfg w1
                in if setState_calls w' \<noteq> setState_calls w1 then engine_update cfg w'
                   else (Inr (), w')))
      | StoreChange s \<Rightarrow> (Inr (), w\<lparr>getState := s\<rparr>)
      | Notification \<Rightarrow> notify cfg w
      | StoreUpdate s \<Rightarrow> notify cfg (w\<lparr>getState := s\<rparr>)
      | Batch ss \<Rightarrow>
          (let w' = deliver cfg ss w
           in if setState_calls w' \<noteq> setState_calls w then engine_update cfg w'
              else (Inr (), w'))
      | PropsUpdate nextProps \<Rightarrow>
          engine_update cfg ((componentWillReceiveProps cfg nextProps w)\<lparr>props := nextProps\<rparr>)
      | Unmount \<Rightarrow> (Inr (), componentWillUnmount w))"

text \<open>A sequence of events stops at the first exception.\<close>

fun run :: "config \<Rightarrow> event list \<Rightarrow> world \<Rightarrow> (err + unit) \<times> world" where
  "run cfg [] w = (Inr (), w)"
| "run cfg (ev # evs) w =
     (case step cfg ev w of
        (Inl e, w') \<Rightarrow> (Inl e, w')
      | (Inr u, w') \<Rightarrow> run cfg evs w')"


section \<open>Auxiliary definitions for the proofs\<close>

text \<open>The fields that no recomputation of state, dispatch or merged props touches.\<close>

definition untouched :: "world \<Rightarrow> world \<Rightarrow> bool" where
  "untouched w w' \<longleftrightarrow>
     haveOwnPropsChanged w' = haveOwnPropsChanged w \<and> hasStoreStateChanged w' = hasStoreStateChanged w
   \<and> haveStatePropsBeenPrecalculated w' = haveStatePropsBeenPrecalculated w
   \<and> statePropsPrecalculationError w' = statePropsPrecalculationError w
   \<and> renderedElement w' = renderedElement w \<and> createElement_calls w' = createElement_calls w
   \<and> props w' = props w \<and> getState w' = getState w \<and> dispatch w' = dispatch w
   \<and> storeState w' = storeState w
   \<and> setState_calls w' = setState_calls w \<and> unsubscribe w' = unsubscribe w
   \<and> listeners w' = listeners w \<and> subscribe_calls w' = subscribe_calls w
   \<and> this_version w' = this_version w \<and> pendingState w' = pendingState w"


subsection \<open>Concrete configurations and instances\<close>

definition example_store :: store where
  "example_store = \<lparr>getState = VRef 0, dispatch = VRef 1, listeners = [], subscribe_calls = 0\<rparr>"

text \<open>\<^verbatim>\<open>connect()(Counter)\<close>: every argument omitted.\<close>

definition example_config :: config where
  "example_config =
     \<lparr>mapStateToProps = None, mapDispatchToProps = DispatchOmitted, mergeProps = None,
      options_pure = None, options_withRef = None,
      wrapActionCreators = (\<lambda>actionCreators. defaultMapDispatchToProps),
      version = 0,
      WrappedComponent = \<lparr>displayName = None, name = Some ''Counter''\<rparr>\<rparr>"

text \<open>\<^verbatim>\<open>state => ({count: state})\<close>\<close>

definition count_mapper :: mapper where
  "count_mapper = Direct (Fn 1 (\<lambda>state ownProps. Inr [''count'' \<mapsto> state]))"

text \<open>\<^verbatim>\<open>() => ({})\<close>, a mapper that declares no parameter.\<close>

definition nullary_mapper :: mapper where
  "nullary_mapper = Direct (Fn 0 (\<lambda>state ownProps. Inr Map.empty))"

text \<open>A mapper that throws an \<^verbatim>\<open>Error\<close> object on every state but the first.\<close>

definition throwing_mapper :: mapper where
  "throwing_mapper =
     Direct (Fn 1 (\<lambda>state ownProps. if state = VRef 0 then Inr Map.empty else Inl (VRef 9)))"

text \<open>
  \<^verbatim>\<open>state => { if (state !== first) throw null; return {count: 0} }\<close>: a mapper that
  throws \<^verbatim>\<open>null\<close> on every state but the first.
\<close>

definition null_throwing_mapper :: mapper where
  "null_throwing_mapper =
     Direct (Fn 1 (\<lambda>state ownProps.
       if state = VRef 0 then Inr [''count'' \<mapsto> VNum 0] else Inl VNull))"

text \<open>A custom \<^verbatim>\<open>mergeProps\<close> that computes what the default one does.\<close>

definition custom_merge :: "props option \<Rightarrow> props option \<Rightarrow> props \<Rightarrow> err + props" where
  "custom_merge stateProps' dispatchProps' parentProps =
     Inr (defaultMergeProps stateProps' dispatchProps' parentProps)"

definition example_world :: world where
  "example_world = clearCache (initial_fields example_config Map.empty example_store)"


text \<open>\<^verbatim>\<open>state => ({})\<close>\<close>

definition constant_mapper :: mapper where
  "constant_mapper = Direct (Fn 1 (\<lambda>state ownProps. Inr Map.empty))"

definition counter_config :: config where
  "counter_config = example_config\<lparr>mapStateToProps := Some count_mapper\<rparr>"

definition constant_config :: config where
  "constant_config = example_config\<lparr>mapStateToProps := Some constant_mapper\<rparr>"

definition throwing_config :: config where
  "throwing_config = example_config\<lparr>mapStateToProps := Some throwing_mapper\<rparr>"

definition null_throwing_config :: config where
  "null_throwing_config = example_config\<lparr>mapStateToProps := Some null_throwing_mapper\<rparr>"

definition nullary_config :: config where
  "nullary_config = example_config\<lparr>mapStateToProps := Some nullary_mapper\<rparr>"

definition custom_config :: config where
  "custom_config = example_config\<lparr>mergeProps := Some custom_merge\<rparr>"

definition impure_config :: config where
  "impure_config = example_config\<lparr>mapStateToProps := Some constant_mapper, options_pure := Some False\<rparr>"

text \<open>The instance of a configuration on the example store after its first render and its mount.\<close>

definition mounted :: "config \<Rightarrow> world" where
  "mounted cfg = componentDidMount cfg (snd (render cfg example_world))"

text \<open>
  The counter instance after its mount, a change of the store's state and, before the
  store has called the instance's listener, new props from the parent.
\<close>

definition parent_first_world :: world where
  "parent_first_world =
     snd (run counter_config [Mount, StoreChange (VRef 7), PropsUpdate [''a'' \<mapsto> VNum 1]]
            example_world)"

text \<open>
  The counter instance after its mount and a batch in which the store's state went to a
  new snapshot and back to the first.
\<close>

definition batched_world :: world where
  "batched_world = snd (run counter_config [Mount, Batch [VRef 7, VRef 0]] example_world)"

text \<open>The nullary instance after its first render, with new props from the parent.\<close>

definition nullary_world :: world where
  "nullary_world =
     (componentWillReceiveProps nullary_config [''a'' \<mapsto> VNum 1]
        (snd (render nullary_config example_world)))\<lparr>props := [''a'' \<mapsto> VNum 1]\<rparr>"

section \<open>What the recomputations leave alone\<close>

lemmas compute_defs = computeStateProps_def configureFinalMapState_def callFinalMapStateToProps_def
  computeDispatchProps_def configureFinalMapDispatch_def callFinalMapDispatchToProps_def
  computeMergedProps_def
lemmas update_defs = updateStatePropsIfNeeded_def updateDispatchPropsIfNeeded_def updateMergedPropsIfNeeded_def
  truthy_and_shallowEqual_def

lemmas config_defs = shouldSubscribe_def mapState_def mapDispatch_def finalMergeProps_def pure_def
  withRef_def checkMergedEquals_def defaultMapStateToProps_def defaultMapDispatchToProps_def
  defaultMergeProps_def spread_def shallowEqual_def

lemmas render_defs = render_def render_updates_def render_reset_def shouldUpdateStateProps_def
  shouldUpdateDispatchProps_def render_stateProps_def render_dispatchProps_def
  render_mergedProps_def createElement_def

lemmas lifecycle_defs = handleChange_def tryCatch_def setState_def trySubscribe_def
  tryUnsubscribe_def componentDidMount_def componentWillReceiveProps_def
  componentWillUnmount_def componentWillUpdate_def shouldComponentUpdate_def
  engine_update_def notify_def step_def apply_pendingState_def call_listener_def

lemmas example_defs = example_store_def example_config_def example_world_def count_mapper_def
  nullary_mapper_def throwing_mapper_def custom_merge_def initial_fields_def clearCache_def
  constant_mapper_def mounted_def counter_config_def constant_config_def throwing_config_def
  impure_config_def custom_config_def null_throwing_mapper_def null_throwing_config_def
  nullary_config_def parent_first_world_def batched_world_def nullary_world_def

lemma map_upd_neq: "a \<noteq> b \<Longrightarrow> (m(k \<mapsto> a) = n(k \<mapsto> b)) = False"
  by (auto dest: map_upd_eqD1)

lemmas all_defs = example_defs config_defs render_defs update_defs compute_defs lifecycle_defs
  Let_def map_upd_neq

lemma usp_frame: "updateStatePropsIfNeeded cfg w = (r, w') \<Longrightarrow>
   computeStateProps_calls w' = computeStateProps_calls w + 1
   \<and> createElement_calls w' = createElement_calls w \<and> dispatchProps w' = dispatchProps w
   \<and> mergedProps w' = mergedProps w \<and> computeDispatchProps_calls w' = computeDispatchProps_calls w
   \<and> computeMergedProps_calls w' = computeMergedProps_calls w \<and> props w' = props w
   \<and> renderedElement w' = renderedElement w \<and> setState_calls w' = setState_calls w
   \<and> finalMapDispatchToProps w' = finalMapDispatchToProps w
   \<and> doDispatchPropsDependOnOwnProps w' = doDispatchPropsDependOnOwnProps w
   \<and> getState w' = getState w \<and> dispatch w' = dispatch w \<and> storeState w' = storeState w"
  by (auto simp: compute_defs update_defs Let_def split: sum.splits option.splits mapper.splits if_splits)

lemma usp_result: "updateStatePropsIfNeeded cfg w = (r, w') \<Longrightarrow>
   (case r of Inl e \<Rightarrow> stateProps w' = stateProps w
    | Inr b \<Rightarrow> if b then stateProps w' \<noteq> None \<and> stateProps w' \<noteq> stateProps w
               else stateProps w' = stateProps w \<and> stateProps w \<noteq> None)"
  by (auto simp: compute_defs update_defs shallowEqual_def Let_def split: sum.splits option.splits mapper.splits if_splits)


lemma usp_flags: "updateStatePropsIfNeeded cfg w = (r, w') \<Longrightarrow>
   haveOwnPropsChanged w' = haveOwnPropsChanged w \<and> hasStoreStateChanged w' = hasStoreStateChanged w
   \<and> haveStatePropsBeenPrecalculated w' = haveStatePropsBeenPrecalculated w
   \<and> statePropsPrecalculationError w' = statePropsPrecalculationError w
   \<and> unsubscribe w' = unsubscribe w \<and> listeners w' = listeners w
   \<and> subscribe_calls w' = subscribe_calls w \<and> this_version w' = this_version w
   \<and> pendingState w' = pendingState w"
  by (auto simp: compute_defs update_defs Let_def split: sum.splits option.splits mapper.splits if_splits)

lemma udp_frame: "updateDispatchPropsIfNeeded cfg w = (r, w') \<Longrightarrow>
   computeDispatchProps_calls w' = computeDispatchProps_calls w + 1
   \<and> createElement_calls w' = createElement_calls w \<and> stateProps w' = stateProps w
   \<and> mergedProps w' = mergedProps w \<and> computeStateProps_calls w' = computeStateProps_calls w
   \<and> computeMergedProps_calls w' = computeMergedProps_calls w \<and> props w' = props w
   \<and> renderedElement w' = renderedElement w \<and> setState_calls w' = setState_calls w
   \<and> finalMapStateToProps w' = finalMapStateToProps w
   \<and> doStatePropsDependOnOwnProps w' = doStatePropsDependOnOwnProps w
   \<and> getState w' = getState w \<and> dispatch w' = dispatch w \<and> storeState w' = storeState w"
  by (auto simp: compute_defs update_defs Let_def split: sum.splits option.splits mapper.splits if_splits)

lemma udp_flags: "updateDispatchPropsIfNeeded cfg w = (r, w') \<Longrightarrow>
   haveOwnPropsChanged w' = haveOwnPropsChanged w \<and> hasStoreStateChanged w' = hasStoreStateChanged w
   \<and> haveStatePropsBeenPrecalculated w' = haveStatePropsBeenPrecalculated w
   \<and> statePropsPrecalculationError w' = statePropsPrecalculationError w
   \<and> unsubscribe w' = unsubscribe w \<and> listeners w' = listeners w
   \<and> subscribe_calls w' = subscribe_calls w \<and> this_version w' = this_version w
   \<and> pendingState w' = pendingState w"
  by (auto simp: compute_defs update_defs Let_def split: sum.splits option.splits mapper.splits if_splits)

lemma udp_result: "updateDispatchPropsIfNeeded cfg w = (r, w') \<Longrightarrow>
   (case r of Inl e \<Rightarrow> dispatchProps w' = dispatchProps w
    | Inr b \<Rightarrow> if b then dispatchProps w' \<noteq> None \<and> dispatchProps w' \<noteq> dispatchProps w
               else dispatchProps w' = dispatchProps w \<and> dispatchProps w \<noteq> None)"
  by (auto simp: compute_defs update_defs shallowEqual_def Let_def split: sum.splits option.splits mapper.splits if_splits)

lemma ump_frame: "updateMergedPropsIfNeeded cfg w = (r, w') \<Longrightarrow>
   computeMergedProps_calls w' = computeMergedProps_calls w + 1
   \<and> createElement_calls w' = createElement_calls w \<and> stateProps w' = stateProps w
   \<and> dispatchProps w' = dispatchProps w \<and> computeStateProps_calls w' = computeStateProps_calls w
   \<and> computeDispatchProps_calls w' = computeDispatchProps_calls w \<and> props w' = props w
   \<and> renderedElement w' = renderedElement w \<and> setState_calls w' = setState_calls w
   \<and> finalMapStateToProps w' = finalMapStateToProps w
   \<and> doStatePropsDependOnOwnProps w' = doStatePropsDependOnOwnProps w
   \<and> finalMapDispatchToProps w' = finalMapDispatchToProps w
   \<and> doDispatchPropsDependOnOwnProps w' = doDispatchPropsDependOnOwnProps w
   \<and> getState w' = getState w \<and> dispatch w' = dispatch w \<and> storeState w' = storeState w"
  by (auto simp: compute_defs update_defs Let_def split: sum.splits option.splits mapper.splits if_splits)

lemma ump_flags: "updateMergedPropsIfNeeded cfg w = (r, w') \<Longrightarrow>
   haveOwnPropsChanged w' = haveOwnPropsChanged w \<and> hasStoreStateChanged w' = hasStoreStateChanged w
   \<and> haveStatePropsBeenPrecalculated w' = haveStatePropsBeenPrecalculated w
   \<and> statePropsPrecalculationError w' = statePropsPrecalculationError w
   \<and> unsubscribe w' = unsubscribe w \<and> listeners w' = listeners w
   \<and> subscribe_calls w' = subscribe_calls w \<and> this_version w' = this_version w
   \<and> pendingState w' = pendingState w"
  by (auto simp: compute_defs update_defs Let_def split: sum.splits option.splits mapper.splits if_splits)

lemma ump_result: "updateMergedPropsIfNeeded cfg w = (r, w') \<Longrightarrow>
   (case r of Inl e \<Rightarrow> mergedProps w' = mergedProps w
    | Inr b \<Rightarrow> if b then mergedProps w' \<noteq> None
               else mergedProps w' = mergedProps w \<and> mergedProps w \<noteq> None \<and> checkMergedEquals cfg)"
  by (auto simp: compute_defs update_defs shallowEqual_def Let_def split: sum.splits option.splits mapper.splits if_splits)




lemma untouched_refl: "untouched w w"
  by (simp add: untouched_def)
lemma untouched_trans: "untouched a b \<Longrightarrow> untouched b c \<Longrightarrow> untouched a c"
  by (simp add: untouched_def)

lemma usp_untouched: "updateStatePropsIfNeeded cfg w = (r, w') \<Longrightarrow> untouched w w'"
  using usp_frame[of cfg w r w'] usp_flags[of cfg w r w'] by (simp add: untouched_def)
lemma udp_untouched: "updateDispatchPropsIfNeeded cfg w = (r, w') \<Longrightarrow> untouched w w'"
  using udp_frame[of cfg w r w'] udp_flags[of cfg w r w'] by (simp add: untouched_def)
lemma ump_untouched: "updateMergedPropsIfNeeded cfg w = (r, w') \<Longrightarrow> untouched w w'"
  using ump_frame[of cfg w r w'] ump_flags[of cfg w r w'] by (simp add: untouched_def)

lemma rsp_untouched: "render_stateProps cfg w0 w1 = (r, w2) \<Longrightarrow> untouched w1 w2"
  by (auto simp: render_stateProps_def untouched_refl usp_untouched split: if_splits)
lemma rdp_untouched: "render_dispatchProps cfg w0 w2 = (r, w3) \<Longrightarrow> untouched w2 w3"
  by (auto simp: render_dispatchProps_def untouched_refl udp_untouched split: if_splits)
lemma rmp_untouched: "render_mergedProps w0 s d cfg w3 = (r, w4) \<Longrightarrow> untouched w3 w4"
  by (auto simp: render_mergedProps_def untouched_refl ump_untouched split: if_splits)

lemma ru_untouched:
  assumes a: "render_updates cfg w0 = (r, w4)"
  shows "untouched (render_reset w0) w4"
proof (cases "truthy (statePropsPrecalculationError w0)")
  case True
  with a show ?thesis by (auto simp: render_updates_def untouched_refl)
next
  case False
  with a show ?thesis
    by (auto simp: render_updates_def untouched_refl split: sum.splits prod.splits
        dest!: rsp_untouched rdp_untouched rmp_untouched intro: untouched_trans)
qed

lemma ru_InrD: assumes a: "render_updates cfg w0 = (Inr (s, d, m), w4)"
  shows "\<not> truthy (statePropsPrecalculationError w0) \<and>
   (\<exists>w2 w3. render_stateProps cfg w0 (render_reset w0) = (Inr s, w2)
      \<and> render_dispatchProps cfg w0 w2 = (Inr d, w3)
      \<and> render_mergedProps w0 s d cfg w3 = (Inr m, w4))"
proof -
  from a have e: "\<not> truthy (statePropsPrecalculationError w0)"
    by (cases "truthy (statePropsPrecalculationError w0)") (simp_all add: render_updates_def)
  obtain r2 w2 where s1: "render_stateProps cfg w0 (render_reset w0) = (r2, w2)" by fastforce
  from a e s1 obtain s' where r2: "r2 = Inr s'" by (cases r2) (simp_all add: render_updates_def)
  obtain r3 w3 where s2: "render_dispatchProps cfg w0 w2 = (r3, w3)" by fastforce
  from a e s1 r2 s2 obtain d' where r3: "r3 = Inr d'" by (cases r3) (simp_all add: render_updates_def)
  obtain r4 w4' where s3: "render_mergedProps w0 s' d' cfg w3 = (r4, w4')" by fastforce
  from a e s1 r2 s2 r3 s3 obtain m' where r4: "r4 = Inr m'" by (cases r4) (simp_all add: render_updates_def)
  from a e s1 r2 s2 r3 s3 r4 have "s' = s \<and> d' = d \<and> m' = m \<and> w4' = w4"
    by (simp add: render_updates_def)
  with e s1 r2 s2 r3 s3 r4 show ?thesis by blast
qed

lemma render_InrD: assumes a: "render cfg w0 = (Inr el, w5)"
  shows "\<exists>s d m w4. render_updates cfg w0 = (Inr (s, d, m), w4) \<and>
     (if \<not> m \<and> renderedElement w0 \<noteq> None then el = the (renderedElement w0) \<and> w5 = w4
      else node_ref el = createElement_calls w4 \<and>
           w5 = w4\<lparr>createElement_calls := createElement_calls w4 + 1, renderedElement := Some el\<rparr>)"
proof -
  obtain r w4 where ru: "render_updates cfg w0 = (r, w4)" by fastforce
  from a ru obtain s d m where r: "r = Inr (s, d, m)"
    by (cases r) (auto simp: render_def)
  show ?thesis
  proof (cases "\<not> m \<and> renderedElement w0 \<noteq> None")
    case True
    with a ru r have "el = the (renderedElement w0) \<and> w5 = w4" by (auto simp: render_def)
    with ru r True show ?thesis by auto
  next
    case False
    with a ru r have "node_ref el = createElement_calls w4 \<and>
           w5 = w4\<lparr>createElement_calls := createElement_calls w4 + 1, renderedElement := Some el\<rparr>"
      by (cases "withRef cfg") (auto simp: render_def createElement_def)
    with ru r False show ?thesis by auto
  qed
qed

lemma reset_fields: "stateProps (render_reset w) = stateProps w" "dispatchProps (render_reset w) = dispatchProps w"
  "mergedProps (render_reset w) = mergedProps w"
  "computeStateProps_calls (render_reset w) = computeStateProps_calls w"
  "computeDispatchProps_calls (render_reset w) = computeDispatchProps_calls w"
  "computeMergedProps_calls (render_reset w) = computeMergedProps_calls w"
  "createElement_calls (render_reset w) = createElement_calls w"
  "renderedElement (render_reset w) = renderedElement w"
  by (simp_all add: render_reset_def)

lemma render_frame:
  assumes a: "render cfg w0 = (r, w5)"
  shows "unsubscribe w5 = unsubscribe w0 \<and> listeners w5 = listeners w0
    \<and> subscribe_calls w5 = subscribe_calls w0 \<and> setState_calls w5 = setState_calls w0
    \<and> props w5 = props w0 \<and> getState w5 = getState w0 \<and> dispatch w5 = dispatch w0
    \<and> storeState w5 = storeState w0 \<and> this_version w5 = this_version w0
    \<and> \<not> haveOwnPropsChanged w5 \<and> \<not> hasStoreStateChanged w5
    \<and> \<not> haveStatePropsBeenPrecalculated w5 \<and> statePropsPrecalculationError w5 = VNull
    \<and> pendingState w5 = pendingState w0"
proof -
  obtain r' w4 where ru: "render_updates cfg w0 = (r', w4)" by fastforce
  from ru_untouched [OF ru] have u: "untouched (render_reset w0) w4" .
  have "w5 = w4 \<or> (\<exists>el. w5 = w4\<lparr>createElement_calls := createElement_calls w4 + 1,
      renderedElement := Some el\<rparr>)"
    using a ru by (cases r') (auto simp: render_def createElement_def split: if_splits)
  with u show ?thesis
    by (auto simp: untouched_def render_reset_def)
qed





lemma csp_cong:
  "getState a = getState b \<Longrightarrow> props a = props b
   \<Longrightarrow> finalMapStateToProps a = finalMapStateToProps b
   \<Longrightarrow> doStatePropsDependOnOwnProps a = doStatePropsDependOnOwnProps b
   \<Longrightarrow> fst (computeStateProps cfg a) = fst (computeStateProps cfg b)"
  by (simp add: compute_defs Let_def split: option.splits mapper.splits sum.splits)

lemma csp_stateProps: "computeStateProps cfg w = (r, w1) \<Longrightarrow> stateProps w1 = stateProps w"
  by (auto simp: compute_defs Let_def split: option.splits mapper.splits sum.splits)

lemma usp_equal:
  assumes "fst (computeStateProps cfg w) = Inr sp'" "stateProps w = Some sp" "shallowEqual sp' sp"
  shows "fst (updateStatePropsIfNeeded cfg w) = Inr False"
proof -
  obtain r w1 where c: "computeStateProps cfg w = (r, w1)" by fastforce
  with assms(1) have r: "r = Inr sp'" by simp
  from csp_stateProps [OF c] assms(2) have "stateProps w1 = Some sp" by simp
  with c r assms(3) show ?thesis
    by (simp add: updateStatePropsIfNeeded_def truthy_and_shallowEqual_def)
qed


lemma shallowEqual_iff:
  "shallowEqual objA objB \<longleftrightarrow> dom objA = dom objB \<and> (\<forall>k \<in> dom objA. objA k = objB k)"
  unfolding shallowEqual_def
proof
  assume "objA = objB"
  then show "dom objA = dom objB \<and> (\<forall>k \<in> dom objA. objA k = objB k)"
    by simp
next
  assume h: "dom objA = dom objB \<and> (\<forall>k \<in> dom objA. objA k = objB k)"
  show "objA = objB"
  proof
    fix k
    show "objA k = objB k"
    proof (cases "k \<in> dom objA")
      case True
      with h show ?thesis by blast
    next
      case False
      with h have "objA k = None" "objB k = None" by auto
      then show ?thesis by simp
    qed
  qed
qed

lemma apply_pendingState_fields:
  "haveOwnPropsChanged (apply_pendingState w) = haveOwnPropsChanged w"
  "hasStoreStateChanged (apply_pendingState w) = hasStoreStateChanged w"
  "haveStatePropsBeenPrecalculated (apply_pendingState w) = haveStatePropsBeenPrecalculated w"
  "statePropsPrecalculationError (apply_pendingState w) = statePropsPrecalculationError w"
  "renderedElement (apply_pendingState w) = renderedElement w"
  "createElement_calls (apply_pendingState w) = createElement_calls w"
  "props (apply_pendingState w) = props w"
  "getState (apply_pendingState w) = getState w"
  "dispatch (apply_pendingState w) = dispatch w"
  "setState_calls (apply_pendingState w) = setState_calls w"
  "unsubscribe (apply_pendingState w) = unsubscribe w"
  "listeners (apply_pendingState w) = listeners w"
  "subscribe_calls (apply_pendingState w) = subscribe_calls w"
  "this_version (apply_pendingState w) = this_version w"
  "stateProps (apply_pendingState w) = stateProps w"
  "dispatchProps (apply_pendingState w) = dispatchProps w"
  "mergedProps (apply_pendingState w) = mergedProps w"
  "finalMapStateToProps (apply_pendingState w) = finalMapStateToProps w"
  "finalMapDispatchToProps (apply_pendingState w) = finalMapDispatchToProps w"
  "doStatePropsDependOnOwnProps (apply_pendingState w) = doStatePropsDependOnOwnProps w"
  "doDispatchPropsDependOnOwnProps (apply_pendingState w) = doDispatchPropsDependOnOwnProps w"
  "computeStateProps_calls (apply_pendingState w) = computeStateProps_calls w"
  "computeDispatchProps_calls (apply_pendingState w) = computeDispatchProps_calls w"
  "computeMergedProps_calls (apply_pendingState w) = computeMergedProps_calls w"
  by (simp_all add: apply_pendingState_def split: option.splits)

section \<open>The default merge function\<close>

text \<open>
  C5. For all state props, dispatch props and own props, whatever keys they share, the
  default merge function yields at each key the dispatch-props value if dispatch props
  have the key, else the state-props value if state props have it, else the own-props
  value (none if own props lack the key too).
\<close>

theorem defaultMergeProps_precedence:
  "defaultMergeProps (Some stateProps') (Some dispatchProps') ownProps k =
     (case dispatchProps' k of
        Some v \<Rightarrow> Some v
      | None \<Rightarrow> (case stateProps' k of Some v \<Rightarrow> Some v | None \<Rightarrow> ownProps k))"
  by (simp add: defaultMergeProps_def spread_def map_add_def split: option.splits)

section \<open>Merged props and the custom merge function\<close>

text \<open>
  C2, as the code has it. \<^verbatim>\<open>updateMergedPropsIfNeeded\<close> reports unchanged, and keeps the
  cached merged props, exactly when \<^verbatim>\<open>pure\<close> is on, a custom merge function is
  configured, merged props are cached and the newly merged props are shallow-equal to
  them. With the default merge function it reports changed, and stores the newly merged
  props, every time it is invoked.
\<close>

theorem updateMergedPropsIfNeeded_custom_only:
  assumes "updateMergedPropsIfNeeded cfg w = (Inr changed, w')"
  shows "\<exists>next. finalMergeProps cfg (stateProps w) (dispatchProps w) (props w) = Inr next \<and>
       (\<not> changed \<longleftrightarrow> pure cfg \<and> mergeProps cfg \<noteq> None
            \<and> (\<exists>cached. mergedProps w = Some cached \<and> shallowEqual next cached)) \<and>
       (changed \<longrightarrow> mergedProps w' = Some next) \<and>
       (\<not> changed \<longrightarrow> mergedProps w' = mergedProps w)"
  using assms
  by (auto simp: updateMergedPropsIfNeeded_def computeMergedProps_def checkMergedEquals_def
      split: sum.splits if_splits)

text \<open>
  The claim C2 as stated fails. After a first render with \<^verbatim>\<open>pure\<close> on, a second call of
  \<^verbatim>\<open>updateMergedPropsIfNeeded\<close> merges props shallow-equal to the cached ones: with the
  default merge function it reports changed, with a custom one it reports unchanged.
\<close>

theorem updateMergedPropsIfNeeded_default_counterexample:
  "pure example_config \<and> mergeProps example_config = None
   \<and> mergedProps (snd (render example_config example_world)) = Some [''dispatch'' \<mapsto> VRef 1]
   \<and> finalMergeProps example_config
        (stateProps (snd (render example_config example_world)))
        (dispatchProps (snd (render example_config example_world)))
        (props (snd (render example_config example_world))) = Inr [''dispatch'' \<mapsto> VRef 1]
   \<and> shallowEqual [''dispatch'' \<mapsto> VRef 1] [''dispatch'' \<mapsto> VRef 1]
   \<and> fst (updateMergedPropsIfNeeded example_config (snd (render example_config example_world)))
       = Inr True
   \<and> pure custom_config \<and> mergeProps custom_config \<noteq> None
   \<and> mergedProps (snd (render custom_config example_world)) = Some [''dispatch'' \<mapsto> VRef 1]
   \<and> finalMergeProps custom_config
        (stateProps (snd (render custom_config example_world)))
        (dispatchProps (snd (render custom_config example_world)))
        (props (snd (render custom_config example_world))) = Inr [''dispatch'' \<mapsto> VRef 1]
   \<and> fst (updateMergedPropsIfNeeded custom_config (snd (render custom_config example_world)))
       = Inr False"
  by (simp add: all_defs)

theorem updateMergedPropsIfNeeded_custom_only_witness:
  "updateMergedPropsIfNeeded custom_config (snd (render custom_config example_world))
    = (Inr False, snd (updateMergedPropsIfNeeded custom_config (snd (render custom_config example_world))))
   \<and> (\<exists>next. finalMergeProps custom_config
          (stateProps (snd (render custom_config example_world)))
          (dispatchProps (snd (render custom_config example_world)))
          (props (snd (render custom_config example_world))) = Inr next \<and>
       (\<not> False \<longleftrightarrow> pure custom_config \<and> mergeProps custom_config \<noteq> None
            \<and> (\<exists>cached. mergedProps (snd (render custom_config example_world)) = Some cached
                  \<and> shallowEqual next cached)) \<and>
       (False \<longrightarrow> mergedProps (snd (updateMergedPropsIfNeeded custom_config
                      (snd (render custom_config example_world)))) = Some next) \<and>
       (\<not> False \<longrightarrow> mergedProps (snd (updateMergedPropsIfNeeded custom_config
                      (snd (render custom_config example_world))))
            = mergedProps (snd (render custom_config example_world))))"
proof -
  have f: "fst (updateMergedPropsIfNeeded custom_config (snd (render custom_config example_world)))
      = Inr False"
    by (simp add: all_defs)
  have h: "updateMergedPropsIfNeeded custom_config (snd (render custom_config example_world))
    = (Inr False, snd (updateMergedPropsIfNeeded custom_config (snd (render custom_config example_world))))"
    using f by (simp add: prod_eq_iff)
  show ?thesis
    by (rule conjI [OF h updateMergedPropsIfNeeded_custom_only [OF h]])
qed

section \<open>Unsubscription\<close>

text \<open>
  C6. Unsubscribing twice raises nothing (\<^verbatim>\<open>tryUnsubscribe\<close> has no throwing path, and
  a second call, after \<^verbatim>\<open>componentWillUnmount\<close> or after a first call, changes
  nothing), the handle is no longer among the store's listeners, and a notification
  that reaches \<^verbatim>\<open>handleChange\<close> after unsubscription is a no-op whatever the store's
  state is by then: the instance is returned as it was, no \<^verbatim>\<open>setState\<close> included.
\<close>

theorem unsubscribe_twice_and_late_notification:
  "tryUnsubscribe (componentWillUnmount w) = componentWillUnmount w
   \<and> tryUnsubscribe (tryUnsubscribe w) = tryUnsubscribe w
   \<and> componentWillUnmount (componentWillUnmount w) = componentWillUnmount w
   \<and> unsubscribe (componentWillUnmount w) = None
   \<and> (case unsubscribe w of
         None \<Rightarrow> listeners (componentWillUnmount w) = listeners w
       | Some h \<Rightarrow> h \<notin> set (listeners (componentWillUnmount w)))
   \<and> handleChange cfg ((componentWillUnmount w)\<lparr>getState := s\<rparr>)
       = (componentWillUnmount w)\<lparr>getState := s\<rparr>
   \<and> handleChange cfg ((tryUnsubscribe w)\<lparr>getState := s\<rparr>) = (tryUnsubscribe w)\<lparr>getState := s\<rparr>
   \<and> notify cfg ((componentWillUnmount w)\<lparr>getState := s\<rparr>)
       = (Inr (), (componentWillUnmount w)\<lparr>getState := s\<rparr>)"
  by (simp add: tryUnsubscribe_def componentWillUnmount_def clearCache_def handleChange_def
      notify_def split: option.splits)

section \<open>Finalized mappers and their arity\<close>










section \<open>The first render after a cache clear\<close>

text \<open>
  C10. After \<^verbatim>\<open>clearCache\<close> (the constructor ends with it) a render that returns has
  called each of the three compute functions once, each of the three
  \<^verbatim>\<open>update...IfNeeded\<close> calls has reported changed, and the node returned is a fresh one
  from \<^verbatim>\<open>createElement\<close>, which is cached.
\<close>

theorem render_after_clearCache:
  assumes r: "render cfg (clearCache w) = (Inr el, w')"
  shows "fst (render_updates cfg (clearCache w)) = Inr (True, True, True)
     \<and> computeStateProps_calls w' = computeStateProps_calls w + 1
     \<and> computeDispatchProps_calls w' = computeDispatchProps_calls w + 1
     \<and> computeMergedProps_calls w' = computeMergedProps_calls w + 1
     \<and> node_ref el = createElement_calls w
     \<and> createElement_calls w' = createElement_calls w + 1
     \<and> renderedElement w' = Some el"
proof -
  let ?c = "clearCache w"
  have c: "renderedElement ?c = None" "stateProps ?c = None" "dispatchProps ?c = None"
    "mergedProps ?c = None" "\<not> haveStatePropsBeenPrecalculated ?c"
    "computeStateProps_calls ?c = computeStateProps_calls w"
    "computeDispatchProps_calls ?c = computeDispatchProps_calls w"
    "computeMergedProps_calls ?c = computeMergedProps_calls w"
    "createElement_calls ?c = createElement_calls w"
    by (simp_all add: clearCache_def)
  from render_InrD[OF r] obtain s d m w4 where
    ru: "render_updates cfg ?c = (Inr (s, d, m), w4)" and
    el: "if \<not> m \<and> renderedElement ?c \<noteq> None then el = the (renderedElement ?c) \<and> w' = w4
      else node_ref el = createElement_calls w4 \<and>
           w' = w4\<lparr>createElement_calls := createElement_calls w4 + 1, renderedElement := Some el\<rparr>"
    by blast
  from ru_InrD[OF ru] obtain w2 w3 where
    s1: "render_stateProps cfg ?c (render_reset ?c) = (Inr s, w2)" and
    s2: "render_dispatchProps cfg ?c w2 = (Inr d, w3)" and
    s3: "render_mergedProps ?c s d cfg w3 = (Inr m, w4)" by blast
  from s1 c have u1: "updateStatePropsIfNeeded cfg (render_reset ?c) = (Inr s, w2)"
    by (simp add: render_stateProps_def shouldUpdateStateProps_def)
  from usp_result[OF u1] c have s: "s" by (simp add: reset_fields split: if_splits)
  note f1 = usp_frame[OF u1]
  from s2 c have u2: "updateDispatchPropsIfNeeded cfg w2 = (Inr d, w3)"
    by (simp add: render_dispatchProps_def shouldUpdateDispatchProps_def)
  from udp_result[OF u2] f1 c have d: "d" by (simp add: reset_fields split: if_splits)
  note f2 = udp_frame[OF u2]
  from s3 s have u3: "updateMergedPropsIfNeeded cfg w3 = (Inr m, w4)"
    by (simp add: render_mergedProps_def)
  from ump_result[OF u3] f1 f2 c have m: "m" by (simp add: reset_fields split: if_splits)
  note f3 = ump_frame[OF u3]
  from el m have w': "node_ref el = createElement_calls w4"
     "w' = w4\<lparr>createElement_calls := createElement_calls w4 + 1, renderedElement := Some el\<rparr>"
    by simp_all
  show ?thesis using ru s d m w' f1 f2 f3 c by (simp add: reset_fields)
qed

theorem render_after_clearCache_witness:
  "render example_config (clearCache example_world)
     = (Inr (Element 0 (Some [''dispatch'' \<mapsto> VRef 1])),
        snd (render example_config (clearCache example_world)))
   \<and> (fst (render_updates example_config (clearCache example_world)) = Inr (True, True, True)
     \<and> computeStateProps_calls (snd (render example_config (clearCache example_world)))
         = computeStateProps_calls example_world + 1
     \<and> computeDispatchProps_calls (snd (render example_config (clearCache example_world)))
         = computeDispatchProps_calls example_world + 1
     \<and> computeMergedProps_calls (snd (render example_config (clearCache example_world)))
         = computeMergedProps_calls example_world + 1
     \<and> node_ref (Element 0 (Some [''dispatch'' \<mapsto> VRef 1])) = createElement_calls example_world
     \<and> createElement_calls (snd (render example_config (clearCache example_world)))
         = createElement_calls example_world + 1
     \<and> renderedElement (snd (render example_config (clearCache example_world)))
         = Some (Element 0 (Some [''dispatch'' \<mapsto> VRef 1])))"
proof -
  have f: "fst (render example_config (clearCache example_world))
      = Inr (Element 0 (Some [''dispatch'' \<mapsto> VRef 1]))"
    by (simp add: example_defs config_defs render_defs update_defs compute_defs Let_def)
  have h: "render example_config (clearCache example_world)
     = (Inr (Element 0 (Some [''dispatch'' \<mapsto> VRef 1])),
        snd (render example_config (clearCache example_world)))"
    using f by (simp add: prod_eq_iff)
  show ?thesis
    by (rule conjI [OF h render_after_clearCache [OF h]])
qed

section \<open>Memoization in pure mode\<close>










section \<open>Rendering with pure off\<close>

lemma handleChange_impure:
  "\<not> pure cfg \<Longrightarrow> \<not> haveStatePropsBeenPrecalculated w \<Longrightarrow> statePropsPrecalculationError w = VNull
   \<Longrightarrow> \<not> haveStatePropsBeenPrecalculated (handleChange cfg w)
      \<and> statePropsPrecalculationError (handleChange cfg w) = VNull"
  by (simp add: handleChange_def setState_def Let_def)

lemma engine_update_impure:
  assumes "\<not> haveStatePropsBeenPrecalculated w" "statePropsPrecalculationError w = VNull"
    and a: "engine_update cfg w = (r, w')"
  shows "\<not> haveStatePropsBeenPrecalculated w' \<and> statePropsPrecalculationError w' = VNull"
proof (cases "shouldComponentUpdate cfg w")
  case False
  with a assms(1,2) show ?thesis
    by (auto simp: engine_update_def apply_pendingState_fields)
next
  case True
  obtain r1 w1 where rr: "render cfg (apply_pendingState (componentWillUpdate cfg w)) = (r1, w1)"
    by fastforce
  from a True rr have "w' = w1" by (cases r1) (auto simp: engine_update_def)
  with render_frame [OF rr] show ?thesis by simp
qed

lemma call_listener_impure:
  "\<not> pure cfg \<Longrightarrow> \<not> haveStatePropsBeenPrecalculated w \<Longrightarrow> statePropsPrecalculationError w = VNull
   \<Longrightarrow> \<not> haveStatePropsBeenPrecalculated (call_listener cfg w)
      \<and> statePropsPrecalculationError (call_listener cfg w) = VNull"
  using handleChange_impure [of cfg w]
  by (simp add: call_listener_def split: option.splits)

lemma deliver_impure:
  "\<not> pure cfg \<Longrightarrow> \<not> haveStatePropsBeenPrecalculated w \<Longrightarrow> statePropsPrecalculationError w = VNull
   \<Longrightarrow> \<not> haveStatePropsBeenPrecalculated (deliver cfg ss w)
      \<and> statePropsPrecalculationError (deliver cfg ss w) = VNull"
proof (induction ss arbitrary: w)
  case Nil
  then show ?case by simp
next
  case (Cons s ss)
  from call_listener_impure [OF Cons.prems(1), of "w\<lparr>getState := s\<rparr>"] Cons.prems(2,3)
  have "\<not> haveStatePropsBeenPrecalculated (call_listener cfg (w\<lparr>getState := s\<rparr>))
      \<and> statePropsPrecalculationError (call_listener cfg (w\<lparr>getState := s\<rparr>)) = VNull"
    by simp
  with Cons.IH [OF Cons.prems(1)] show ?case by simp
qed

lemma step_impure:
  assumes np: "\<not> pure cfg" and pc: "\<not> haveStatePropsBeenPrecalculated w"
    and er: "statePropsPrecalculationError w = VNull" and a: "step cfg ev w = (r, w')"
  shows "\<not> haveStatePropsBeenPrecalculated w' \<and> statePropsPrecalculationError w' = VNull"
proof (cases ev)
  case Mount
  obtain r1 w1 where rr: "render cfg w = (r1, w1)" by fastforce
  note f = render_frame [OF rr]
  show ?thesis
  proof (cases r1)
    case (Inl e)
    with a Mount rr have "w' = w1" by (simp add: step_def)
    with f show ?thesis by simp
  next
    case (Inr el)
    let ?s = "w1\<lparr>listeners := listeners w1 @ [subscribe_calls w1],
                subscribe_calls := subscribe_calls w1 + 1,
                unsubscribe := Some (subscribe_calls w1)\<rparr>"
    have m: "\<not> haveStatePropsBeenPrecalculated (componentDidMount cfg w1)
        \<and> statePropsPrecalculationError (componentDidMount cfg w1) = VNull"
      using handleChange_impure [OF np, of ?s] f
      by (simp add: componentDidMount_def trySubscribe_def)
    show ?thesis
    proof (cases "setState_calls (componentDidMount cfg w1) \<noteq> setState_calls w1")
      case True
      with a Mount rr Inr have "engine_update cfg (componentDidMount cfg w1) = (r, w')"
        by (simp add: step_def Let_def)
      from engine_update_impure [OF _ _ this] m show ?thesis by simp
    next
      case False
      with a Mount rr Inr have "w' = componentDidMount cfg w1" by (simp add: step_def Let_def)
      with m show ?thesis by simp
    qed
  qed
next
  case (StoreChange s)
  with a pc er show ?thesis by (auto simp: step_def)
next
  case (Batch ss)
  have m: "\<not> haveStatePropsBeenPrecalculated (deliver cfg ss w)
      \<and> statePropsPrecalculationError (deliver cfg ss w) = VNull"
    using deliver_impure [OF np pc er] .
  from a Batch have "w' = deliver cfg ss w \<or> engine_update cfg (deliver cfg ss w) = (r, w')"
    by (auto simp: step_def Let_def split: if_splits)
  with m engine_update_impure [of "deliver cfg ss w" cfg r w'] show ?thesis by auto
next
  case (StoreUpdate s)
  let ?v = "w\<lparr>getState := s\<rparr>"
  have m: "\<not> haveStatePropsBeenPrecalculated (handleChange cfg ?v)
      \<and> statePropsPrecalculationError (handleChange cfg ?v) = VNull"
    using handleChange_impure [OF np, of ?v] pc er by simp
  from a StoreUpdate have n: "notify cfg ?v = (r, w')" by (simp add: step_def)
  then have "w' = ?v \<or> w' = handleChange cfg ?v \<or> engine_update cfg (handleChange cfg ?v) = (r, w')"
    by (auto simp: notify_def Let_def split: option.splits if_splits)
  with m pc er engine_update_impure [of "handleChange cfg ?v" cfg r w'] show ?thesis by auto
next
  case Notification
  have m: "\<not> haveStatePropsBeenPrecalculated (handleChange cfg w)
      \<and> statePropsPrecalculationError (handleChange cfg w) = VNull"
    using handleChange_impure [OF np pc er] .
  from a Notification have n: "notify cfg w = (r, w')" by (simp add: step_def)
  then have "w' = w \<or> w' = handleChange cfg w \<or> engine_update cfg (handleChange cfg w) = (r, w')"
    by (auto simp: notify_def Let_def split: option.splits if_splits)
  with m pc er engine_update_impure [of "handleChange cfg w" cfg r w'] show ?thesis by auto
next
  case (PropsUpdate p)
  with a have "engine_update cfg ((componentWillReceiveProps cfg p w)\<lparr>props := p\<rparr>) = (r, w')"
    by (simp add: step_def)
  from engine_update_impure [OF _ _ this] pc er show ?thesis
    by (simp add: componentWillReceiveProps_def)
next
  case Unmount
  with a show ?thesis
    by (auto simp: step_def componentWillUnmount_def clearCache_def)
qed

lemma run_impure:
  "\<not> pure cfg \<Longrightarrow> \<not> haveStatePropsBeenPrecalculated w \<Longrightarrow> statePropsPrecalculationError w = VNull
   \<Longrightarrow> run cfg evs w = (r, w')
   \<Longrightarrow> \<not> haveStatePropsBeenPrecalculated w' \<and> statePropsPrecalculationError w' = VNull"
proof (induction evs arbitrary: w)
  case Nil
  then show ?case by simp
next
  case (Cons ev evs)
  obtain r1 w1 where s: "step cfg ev w = (r1, w1)" by fastforce
  note f = step_impure [OF Cons.prems(1,2,3) s]
  show ?case
  proof (cases r1)
    case (Inl e)
    with Cons.prems(4) s have "w' = w1" by simp
    with f show ?thesis by simp
  next
    case (Inr u)
    with Cons.prems(4) s have "run cfg evs w1 = (r, w')" by simp
    from Cons.IH [OF Cons.prems(1) _ _ this] f show ?thesis by simp
  qed
qed

lemma impure_run_nothing_precalculated:
  assumes "\<not> pure cfg" and "constructor cfg ownProps propsStore contextStore = Inr w0"
    and "run cfg evs w0 = (r, w)"
  shows "\<not> haveStatePropsBeenPrecalculated w \<and> statePropsPrecalculationError w = VNull"
proof -
  from assms(2) have "\<not> haveStatePropsBeenPrecalculated w0" "statePropsPrecalculationError w0 = VNull"
    by (auto simp: constructor_def clearCache_def split: option.splits)
  from run_impure [OF assms(1) this assms(3)] show ?thesis .
qed





section \<open>Errors of the precalculation\<close>

text \<open>
  When \<^verbatim>\<open>handleChange\<close> recomputes state props (\<^verbatim>\<open>pure\<close> on, subscribed, a snapshot
  other than the one held, state props independent of own props) and the recomputation
  throws a truthy value, the value does not leave \<^verbatim>\<open>handleChange\<close>: it is stored on the
  instance and an update is requested. The next render throws it before computing
  anything and leaves \<^verbatim>\<open>null\<close> in the slot.
\<close>

lemma truthy_precalculation_error_rethrown_once:
  assumes p: "pure cfg" and sub: "unsubscribe w \<noteq> None" and ch: "storeState w \<noteq> getState w"
    and nd: "doStatePropsDependOnOwnProps w \<noteq> Some True"
    and th: "updateStatePropsIfNeeded cfg w = (Inl e, w1)"
    and tr: "truthy e"
  shows "statePropsPrecalculationError (handleChange cfg w) = e
     \<and> setState_calls (handleChange cfg w) = setState_calls w + 1
     \<and> render cfg (handleChange cfg w) = (Inl e, render_reset (handleChange cfg w))
     \<and> statePropsPrecalculationError (render_reset (handleChange cfg w)) = VNull
     \<and> computeStateProps_calls (render_reset (handleChange cfg w))
         = computeStateProps_calls (handleChange cfg w)"
proof -
  from usp_frame[OF th] have f: "setState_calls w1 = setState_calls w" by simp
  from p sub ch nd th have h: "handleChange cfg w =
     setState (getState w) (w1\<lparr>statePropsPrecalculationError := e,
        haveStatePropsBeenPrecalculated := True, hasStoreStateChanged := True\<rparr>)"
    by (auto simp: handleChange_def tryCatch_def Let_def)
  have e: "statePropsPrecalculationError (handleChange cfg w) = e"
    by (simp add: h setState_def)
  have c: "setState_calls (handleChange cfg w) = setState_calls w + 1"
    by (simp add: h setState_def f)
  from e tr have r: "render cfg (handleChange cfg w) = (Inl e, render_reset (handleChange cfg w))"
    by (simp add: render_def render_updates_def)
  show ?thesis using e c r by (simp add: render_reset_def)
qed

lemma thrown_object_rethrown_example:
  "fst (updateStatePropsIfNeeded throwing_config ((mounted throwing_config)\<lparr>getState := VRef 7\<rparr>))
     = Inl (VRef 9)
   \<and> fst (render throwing_config
            (handleChange throwing_config ((mounted throwing_config)\<lparr>getState := VRef 7\<rparr>)))
       = Inl (VRef 9)
   \<and> fst (step throwing_config (StoreUpdate (VRef 7)) (mounted throwing_config)) = Inl (VRef 9)
   \<and> statePropsPrecalculationError
        (snd (step throwing_config (StoreUpdate (VRef 7)) (mounted throwing_config))) = VNull"
  by (simp add: all_defs)

text \<open>
  C8. The claim holds of every truthy thrown value (the lemma above) and the code misses
  the falsy ones. \<^verbatim>\<open>handleChange\<close> recognises a caught exception by the identity of
  \<^verbatim>\<open>errorObject\<close>, whatever was thrown, but \<^verbatim>\<open>render\<close> tests the stored value for
  truthiness. When the mapper throws \<^verbatim>\<open>null\<close> on the store's new snapshot, the
  recomputation throws, \<^verbatim>\<open>handleChange\<close> stores \<^verbatim>\<open>null\<close>, marks state props as
  precalculated and requests an update; the render that follows does not throw: it
  creates a second node from the state props of the first snapshot, and the update ends
  without an exception.
\<close>

theorem falsy_precalculation_error_not_rethrown:
  "pure null_throwing_config
   \<and> fst (updateStatePropsIfNeeded null_throwing_config
            ((mounted null_throwing_config)\<lparr>getState := VRef 7\<rparr>)) = Inl VNull
   \<and> statePropsPrecalculationError
        (handleChange null_throwing_config ((mounted null_throwing_config)\<lparr>getState := VRef 7\<rparr>))
       = VNull
   \<and> haveStatePropsBeenPrecalculated
        (handleChange null_throwing_config ((mounted null_throwing_config)\<lparr>getState := VRef 7\<rparr>))
   \<and> setState_calls
        (handleChange null_throwing_config ((mounted null_throwing_config)\<lparr>getState := VRef 7\<rparr>))
       = 1
   \<and> fst (render null_throwing_config
            (handleChange null_throwing_config ((mounted null_throwing_config)\<lparr>getState := VRef 7\<rparr>)))
       = Inr (Element 1 (Some [''count'' \<mapsto> VNum 0, ''dispatch'' \<mapsto> VRef 1]))
   \<and> fst (step null_throwing_config (StoreUpdate (VRef 7)) (mounted null_throwing_config)) = Inr ()
   \<and> getState (snd (step null_throwing_config (StoreUpdate (VRef 7)) (mounted null_throwing_config)))
       = VRef 7
   \<and> stateProps (snd (step null_throwing_config (StoreUpdate (VRef 7)) (mounted null_throwing_config)))
       = Some [''count'' \<mapsto> VNum 0]
   \<and> renderedElement
        (snd (step null_throwing_config (StoreUpdate (VRef 7)) (mounted null_throwing_config)))
       = Some (Element 1 (Some [''count'' \<mapsto> VNum 0, ''dispatch'' \<mapsto> VRef 1]))"
  by (simp add: all_defs)

section \<open>A store update that leaves state props shallow-equal\<close>

text \<open>
  C4. With \<^verbatim>\<open>pure\<close> on, take a subscribed instance with a rendered node and cached
  state props, no own-props change and no precalculation pending. If the store's state
  is replaced and the state props computed for the new snapshot are shallow-equal to the
  cached ones, then after the store's notification merged props have not been recomputed
  and the rendered node is the one from before; no node has been created.
\<close>

theorem equal_state_props_reuse_node:
  assumes p: "pure cfg" and sub: "unsubscribe w = Some h" and reg: "h \<in> set (listeners w)"
    and ver: "this_version w = version cfg"
    and el: "renderedElement w = Some el" and sp: "stateProps w = Some sp"
    and own: "\<not> haveOwnPropsChanged w" and pc: "\<not> haveStatePropsBeenPrecalculated w"
    and err: "\<not> truthy (statePropsPrecalculationError w)"
    and out: "fst (computeStateProps cfg (w\<lparr>getState := s'\<rparr>)) = Inr sp'"
    and eq: "shallowEqual sp' sp"
  shows "\<exists>w'. step cfg (StoreUpdate s') w = (Inr (), w')
     \<and> computeMergedProps_calls w' = computeMergedProps_calls w
     \<and> mergedProps w' = mergedProps w
     \<and> renderedElement w' = Some el
     \<and> createElement_calls w' = createElement_calls w"
proof -
  let ?v = "w\<lparr>getState := s'\<rparr>"
  have st: "step cfg (StoreUpdate s') w = notify cfg ?v" by (simp add: step_def)
  show ?thesis
  proof (cases "storeState w = s'")
    case True
    with p sub have "handleChange cfg ?v = ?v" by (simp add: handleChange_def)
    with sub reg have "notify cfg ?v = (Inr (), ?v)" by (simp add: notify_def)
    with st el show ?thesis by simp
  next
    case False
    show ?thesis
    proof (cases "doStatePropsDependOnOwnProps w = Some True")
      case dep: False
      obtain r v2 where u: "updateStatePropsIfNeeded cfg ?v = (r, v2)" by fastforce
      from usp_equal [OF out _ eq] sp u have r: "r = Inr False" by simp
      from p sub False dep u r have hc: "handleChange cfg ?v = v2"
        by (simp add: handleChange_def tryCatch_def)
      note f = usp_frame [OF u]
      from sub reg hc f have "notify cfg ?v = (Inr (), v2)" by (simp add: notify_def)
      with st f el show ?thesis by simp
    next
      case dep: True
      let ?vh = "setState s' (?v\<lparr>hasStoreStateChanged := True\<rparr>)"
      let ?va = "apply_pendingState ?vh"
      from p sub False dep have hc: "handleChange cfg ?v = ?vh"
        by (simp add: handleChange_def Let_def)
      have cw: "componentWillUpdate cfg ?vh = ?vh"
        using ver by (simp add: componentWillUpdate_def setState_def)
      obtain r w2 where u: "updateStatePropsIfNeeded cfg (render_reset ?va) = (r, w2)" by fastforce
      have "fst (computeStateProps cfg (render_reset ?va)) = fst (computeStateProps cfg ?v)"
        by (rule csp_cong) (simp_all add: render_reset_def apply_pendingState_fields setState_def)
      with out have out': "fst (computeStateProps cfg (render_reset ?va)) = Inr sp'" by simp
      have "stateProps (render_reset ?va) = Some sp"
        using sp by (simp add: render_reset_def apply_pendingState_fields setState_def)
      from usp_equal [OF out' this eq] u have r: "r = Inr False" by simp
      note f = usp_frame [OF u]
      have ru: "render_updates cfg ?va = (Inr (False, False, False), w2)"
        using p el own pc err u r
        by (simp add: render_updates_def render_stateProps_def render_dispatchProps_def
            render_mergedProps_def shouldUpdateStateProps_def shouldUpdateDispatchProps_def
            apply_pendingState_fields setState_def)
      have rr: "render cfg ?va = (Inr el, w2)"
        using ru el by (simp add: render_def apply_pendingState_fields setState_def)
      have eu: "engine_update cfg ?vh = (Inr (), w2)"
        using rr cw by (simp add: engine_update_def shouldComponentUpdate_def setState_def)
      have "notify cfg ?v = (Inr (), w2)"
        using sub reg hc eu by (simp add: notify_def setState_def)
      with st f el show ?thesis
        by (simp add: render_reset_def apply_pendingState_fields setState_def)
    qed
  qed
qed

theorem equal_state_props_reuse_node_witness:
  "pure constant_config
   \<and> unsubscribe (mounted constant_config) = Some 0
   \<and> 0 \<in> set (listeners (mounted constant_config))
   \<and> this_version (mounted constant_config) = version constant_config
   \<and> renderedElement (mounted constant_config) = Some (Element 0 (Some [''dispatch'' \<mapsto> VRef 1]))
   \<and> stateProps (mounted constant_config) = Some Map.empty
   \<and> \<not> haveOwnPropsChanged (mounted constant_config)
   \<and> \<not> haveStatePropsBeenPrecalculated (mounted constant_config)
   \<and> \<not> truthy (statePropsPrecalculationError (mounted constant_config))
   \<and> fst (computeStateProps constant_config ((mounted constant_config)\<lparr>getState := VRef 7\<rparr>))
       = Inr Map.empty
   \<and> shallowEqual Map.empty Map.empty
   \<and> VRef 7 \<noteq> storeState (mounted constant_config)
   \<and> (\<exists>w'. step constant_config (StoreUpdate (VRef 7)) (mounted constant_config) = (Inr (), w')
        \<and> computeMergedProps_calls w' = computeMergedProps_calls (mounted constant_config)
        \<and> mergedProps w' = mergedProps (mounted constant_config)
        \<and> renderedElement w' = Some (Element 0 (Some [''dispatch'' \<mapsto> VRef 1]))
        \<and> createElement_calls w' = createElement_calls (mounted constant_config))"
proof -
  let ?w = "mounted constant_config"
  have h1: "pure constant_config"
    by (simp add: all_defs)
  have h2: "unsubscribe ?w = Some 0"
    by (simp add: all_defs)
  have h3: "0 \<in> set (listeners ?w)"
    by (simp add: all_defs)
  have h4: "this_version ?w = version constant_config"
    by (simp add: all_defs)
  have h5: "renderedElement ?w = Some (Element 0 (Some [''dispatch'' \<mapsto> VRef 1]))"
    by (simp add: all_defs)
  have h6: "stateProps ?w = Some Map.empty"
    by (simp add: all_defs)
  have h7: "\<not> haveOwnPropsChanged ?w"
    by (simp add: all_defs)
  have h8: "\<not> haveStatePropsBeenPrecalculated ?w"
    by (simp add: all_defs)
  have h9: "\<not> truthy (statePropsPrecalculationError ?w)"
    by (simp add: all_defs)
  have h10: "fst (computeStateProps constant_config (?w\<lparr>getState := VRef 7\<rparr>)) = Inr Map.empty"
    by (simp add: all_defs)
  have h11: "shallowEqual Map.empty Map.empty"
    by (simp add: shallowEqual_def)
  have n: "VRef 7 \<noteq> storeState ?w"
    by (simp add: all_defs)
  show ?thesis
    by (rule conjI [OF h1 conjI [OF h2 conjI [OF h3 conjI [OF h4 conjI [OF h5 conjI [OF h6
          conjI [OF h7 conjI [OF h8 conjI [OF h9 conjI [OF h10 conjI [OF h11 conjI [OF n
          equal_state_props_reuse_node [OF h1 h2 h3 h4 h5 h6 h7 h8 h9 h10 h11]]]]]]]]]]]]])
qed


section \<open>No state mapper, no subscription\<close>

lemma engine_update_frame:
  assumes ns: "\<not> shouldSubscribe cfg" and a: "engine_update cfg w = (r, w')"
  shows "unsubscribe w' = unsubscribe w \<and> subscribe_calls w' = subscribe_calls w
     \<and> listeners w' = listeners w \<and> setState_calls w' = setState_calls w"
proof (cases "shouldComponentUpdate cfg w")
  case False
  with a show ?thesis by (auto simp: engine_update_def apply_pendingState_fields)
next
  case True
  obtain r1 w1 where rr: "render cfg (apply_pendingState (componentWillUpdate cfg w)) = (r1, w1)"
    by fastforce
  from a True rr have "w' = w1" by (cases r1) (auto simp: engine_update_def)
  with render_frame [OF rr] ns show ?thesis
    by (simp add: apply_pendingState_fields componentWillUpdate_def trySubscribe_def
        clearCache_def)
qed

lemma deliver_unsubscribed:
  "unsubscribe w = None \<Longrightarrow>
   unsubscribe (deliver cfg ss w) = None \<and> subscribe_calls (deliver cfg ss w) = subscribe_calls w
     \<and> listeners (deliver cfg ss w) = listeners w
     \<and> setState_calls (deliver cfg ss w) = setState_calls w"
proof (induction ss arbitrary: w)
  case Nil
  then show ?case by simp
next
  case (Cons s ss)
  from Cons.prems have "call_listener cfg (w\<lparr>getState := s\<rparr>) = w\<lparr>getState := s\<rparr>"
    by (simp add: call_listener_def)
  with Cons.IH [of "w\<lparr>getState := s\<rparr>"] Cons.prems show ?case by simp
qed

lemma step_unsubscribed:
  assumes ns: "\<not> shouldSubscribe cfg" and un: "unsubscribe w = None"
    and a: "step cfg ev w = (r, w')"
  shows "unsubscribe w' = None \<and> subscribe_calls w' = subscribe_calls w
     \<and> listeners w' = listeners w \<and> setState_calls w' = setState_calls w"
proof (cases ev)
  case Mount
  obtain r1 w1 where rr: "render cfg w = (r1, w1)" by fastforce
  note f = render_frame [OF rr]
  from ns have cdm: "componentDidMount cfg w1 = w1"
    by (simp add: componentDidMount_def trySubscribe_def)
  from a Mount rr cdm have "w' = w1"
    by (cases r1) (auto simp: step_def)
  with f un show ?thesis by simp
next
  case (StoreChange s)
  with a un show ?thesis by (auto simp: step_def)
next
  case (StoreUpdate s)
  with a un show ?thesis by (auto simp: step_def notify_def)
next
  case Notification
  with a un show ?thesis by (auto simp: step_def notify_def)
next
  case (Batch ss)
  note f = deliver_unsubscribed [OF un, of cfg ss]
  with a Batch have "w' = deliver cfg ss w" by (simp add: step_def Let_def)
  with f show ?thesis by simp
next
  case (PropsUpdate p)
  with a have "engine_update cfg ((componentWillReceiveProps cfg p w)\<lparr>props := p\<rparr>) = (r, w')"
    by (simp add: step_def)
  from engine_update_frame [OF ns this] un show ?thesis
    by (simp add: componentWillReceiveProps_def)
next
  case Unmount
  with a un show ?thesis
    by (auto simp: step_def componentWillUnmount_def tryUnsubscribe_def clearCache_def)
qed

lemma run_unsubscribed:
  "\<not> shouldSubscribe cfg \<Longrightarrow> unsubscribe w = None \<Longrightarrow> run cfg evs w = (r, w')
   \<Longrightarrow> unsubscribe w' = None \<and> subscribe_calls w' = subscribe_calls w
     \<and> listeners w' = listeners w \<and> setState_calls w' = setState_calls w"
proof (induction evs arbitrary: w)
  case Nil
  then show ?case by simp
next
  case (Cons ev evs)
  obtain r1 w1 where s: "step cfg ev w = (r1, w1)" by fastforce
  note f = step_unsubscribed [OF Cons.prems(1,2) s]
  show ?case
  proof (cases r1)
    case (Inl e)
    with Cons.prems(3) s have "w' = w1" by simp
    with f show ?thesis by simp
  next
    case (Inr u)
    with Cons.prems(3) s have "run cfg evs w1 = (r, w')" by simp
    from Cons.IH [OF Cons.prems(1) _ this] f show ?thesis by simp
  qed
qed


text \<open>
  C7. An instance constructed without \<^verbatim>\<open>mapStateToProps\<close> never calls
  \<^verbatim>\<open>store.subscribe\<close>, whatever happens to it: over every sequence of events the count
  of \<^verbatim>\<open>subscribe\<close> calls and the store's listeners stay as they were, the instance
  holds no subscription and never calls \<^verbatim>\<open>setState\<close>. The effective state mapper
  returns the empty object on every input.
\<close>

theorem no_state_mapper_never_subscribes:
  assumes "mapStateToProps cfg = None"
    and "constructor cfg ownProps propsStore contextStore = Inr w0"
    and "run cfg evs w0 = (r, w')"
  shows "subscribe_calls w' = subscribe_calls w0 \<and> listeners w' = listeners w0
     \<and> unsubscribe w' = None \<and> setState_calls w' = 0
     \<and> (\<exists>f. mapState cfg = Direct f \<and> (\<forall>state ownProps'. fn_apply f state ownProps' = Inr Map.empty))"
proof -
  from assms(1) have ns: "\<not> shouldSubscribe cfg" by (simp add: shouldSubscribe_def)
  from assms(2) have un: "unsubscribe w0 = None" and z: "setState_calls w0 = 0"
    by (auto simp: constructor_def clearCache_def initial_fields_def split: option.splits)
  from run_unsubscribed [OF ns un assms(3)] z assms(1) show ?thesis
    by (simp add: mapState_def defaultMapStateToProps_def)
qed

theorem no_state_mapper_never_subscribes_witness:
  "mapStateToProps example_config = None
   \<and> constructor example_config Map.empty None (Some example_store) = Inr example_world
   \<and> run example_config [Mount, StoreUpdate (VRef 7), PropsUpdate [''a'' \<mapsto> VNum 1], Unmount]
        example_world
       = (Inr (), snd (run example_config
            [Mount, StoreUpdate (VRef 7), PropsUpdate [''a'' \<mapsto> VNum 1], Unmount] example_world))
   \<and> (subscribe_calls (snd (run example_config
            [Mount, StoreUpdate (VRef 7), PropsUpdate [''a'' \<mapsto> VNum 1], Unmount] example_world))
         = subscribe_calls example_world
     \<and> listeners (snd (run example_config
            [Mount, StoreUpdate (VRef 7), PropsUpdate [''a'' \<mapsto> VNum 1], Unmount] example_world))
         = listeners example_world
     \<and> unsubscribe (snd (run example_config
            [Mount, StoreUpdate (VRef 7), PropsUpdate [''a'' \<mapsto> VNum 1], Unmount] example_world))
         = None
     \<and> setState_calls (snd (run example_config
            [Mount, StoreUpdate (VRef 7), PropsUpdate [''a'' \<mapsto> VNum 1], Unmount] example_world))
         = 0
     \<and> (\<exists>f. mapState example_config = Direct f
           \<and> (\<forall>state ownProps'. fn_apply f state ownProps' = Inr Map.empty)))"
proof -
  let ?evs = "[Mount, StoreUpdate (VRef 7), PropsUpdate [''a'' \<mapsto> VNum 1], Unmount]"
  have h1: "mapStateToProps example_config = None"
    by (simp add: all_defs)
  have h2: "constructor example_config Map.empty None (Some example_store) = Inr example_world"
    by (simp add: constructor_def example_world_def)
  have f: "fst (run example_config ?evs example_world) = Inr ()"
    by (simp add: all_defs)
  have h3: "run example_config ?evs example_world
      = (Inr (), snd (run example_config ?evs example_world))"
    using f by (simp add: prod_eq_iff)
  show ?thesis
    by (rule conjI [OF h1 conjI [OF h2 conjI [OF h3
          no_state_mapper_never_subscribes [OF h1 h2 h3]]]])
qed

end
